theory Spec2Isabelle
  imports Main
begin

unbundle bit_operations_syntax

section \<open>opentelemetry.trace: identifiers and span contexts\<close>

text \<open>
  Python integers are unbounded, so trace ids, span ids and trace options are \<open>int\<close>.
  A \<open>TraceState\<close> is a dictionary from strings to strings.
\<close>

type_synonym trace_state = "string \<rightharpoonup> string"

subsection \<open>TraceOptions\<close>

text \<open>
  \<open>class TraceOptions(int)\<close> with the class constants \<open>DEFAULT = 0x00\<close> and
  \<open>SAMPLED = 0x01\<close>; the property \<open>sampled\<close> is \<open>bool(self & TraceOptions.SAMPLED)\<close>,
  and \<open>bool\<close> of an integer is "not zero".
\<close>

definition TraceOptions_DEFAULT :: int where
  "TraceOptions_DEFAULT = 0"

definition TraceOptions_SAMPLED :: int where
  "TraceOptions_SAMPLED = 1"

definition TraceOptions_get_default :: int where
  "TraceOptions_get_default = TraceOptions_DEFAULT"

definition TraceOptions_sampled :: "int \<Rightarrow> bool" where
  "TraceOptions_sampled self = (self AND TraceOptions_SAMPLED \<noteq> 0)"

definition DEFAULT_TRACE_OPTIONS :: int where
  "DEFAULT_TRACE_OPTIONS = TraceOptions_get_default"

definition DEFAULT_TRACE_STATE :: trace_state where
  "DEFAULT_TRACE_STATE = Map.empty"

subsection \<open>Rendering of identifiers\<close>

text \<open>
  \<open>format_trace_id\<close> is \<open>"0x{:032x}".format(trace_id)\<close> and \<open>format_span_id\<close> is
  \<open>"0x{:016x}".format(span_id)\<close>. The format specification \<open>0Nx\<close> writes an integer
  in lower-case hexadecimal with sign-aware zero padding to a minimum width of \<open>N\<close>
  characters: the digits of the absolute value, zeros in front of them up to the width,
  and for a negative number a minus sign that counts towards the width. A number with
  more digits than the width is written in full.
\<close>

definition hex_digit :: "nat \<Rightarrow> char" where
  "hex_digit d = ''0123456789abcdef'' ! d"

fun to_hex :: "nat \<Rightarrow> string" where
  "to_hex n = (if n < 16 then [hex_digit n] else to_hex (n div 16) @ [hex_digit (n mod 16)])"

declare to_hex.simps [simp del]

definition zero_pad :: "nat \<Rightarrow> string \<Rightarrow> string" where
  "zero_pad width ds = replicate (width - length ds) CHR ''0'' @ ds"

definition format_0x :: "nat \<Rightarrow> int \<Rightarrow> string" where
  "format_0x width n =
     (if n < 0 then CHR ''-'' # zero_pad (width - 1) (to_hex (nat (- n)))
      else zero_pad width (to_hex (nat n)))"

definition format_trace_id :: "int \<Rightarrow> string" where
  "format_trace_id tid = ''0x'' @ format_0x 32 tid"

definition format_span_id :: "int \<Rightarrow> string" where
  "format_span_id sid = ''0x'' @ format_0x 16 sid"

text \<open>Reading a rendering back: the value of a character as a hexadecimal digit, and
  of a string of them, most significant digit first.\<close>

definition is_hex_char :: "char \<Rightarrow> bool" where
  "is_hex_char c = (c \<in> set ''0123456789abcdef'')"

definition hex_char_value :: "char \<Rightarrow> nat" where
  "hex_char_value c =
     (if of_char c < (58::nat) then of_char c - 48 else of_char c - 87)"

definition hex_value :: "string \<Rightarrow> nat" where
  "hex_value ds = foldl (\<lambda>acc c. 16 * acc + hex_char_value c) 0 ds"

subsection \<open>SpanContext\<close>

record span_context =
  trace_id :: int
  span_id :: int
  trace_options :: int
  trace_state :: trace_state

definition INVALID_SPAN_ID :: int where
  "INVALID_SPAN_ID = 0"

definition INVALID_TRACE_ID :: int where
  "INVALID_TRACE_ID = 0"

text \<open>\<open>SpanContext.__init__\<close>: an omitted (\<open>None\<close>) option or state is replaced by the
  module's default.\<close>

definition SpanContext :: "int \<Rightarrow> int \<Rightarrow> int option \<Rightarrow> trace_state option \<Rightarrow> span_context" where
  "SpanContext tid sid opts st =
     \<lparr> trace_id = tid, span_id = sid,
       trace_options = (case opts of None \<Rightarrow> DEFAULT_TRACE_OPTIONS | Some x \<Rightarrow> x),
       trace_state = (case st of None \<Rightarrow> DEFAULT_TRACE_STATE | Some x \<Rightarrow> x) \<rparr>"

definition is_valid :: "span_context \<Rightarrow> bool" where
  "is_valid self = (trace_id self \<noteq> INVALID_TRACE_ID \<and> span_id self \<noteq> INVALID_SPAN_ID)"

text \<open>
  \<open>SpanContext.__repr__\<close> is
  \<open>"{}(trace_id={}, span_id={}, trace_state={!r})".format(type(self).__name__, ...)\<close>.
  The class name and the rendering of the state dictionary are parameters.
\<close>

definition SpanContext_repr :: "string \<Rightarrow> (trace_state \<Rightarrow> string) \<Rightarrow> span_context \<Rightarrow> string" where
  "SpanContext_repr type_name repr_state self =
     type_name @ ''(trace_id='' @ format_trace_id (trace_id self)
       @ '', span_id='' @ format_span_id (span_id self)
       @ '', trace_state='' @ repr_state (trace_state self) @ '')''"

subsection \<open>Spans and the API tracer\<close>

text \<open>
  The base class \<open>Span\<close> has methods with empty bodies, which return \<open>None\<close>;
  \<open>DefaultSpan\<close> stores a context, returns it from \<open>get_context\<close> and answers
  \<open>False\<close> to \<open>is_recording_events\<close>.
\<close>

datatype span = Span | DefaultSpan span_context

fun get_context :: "span \<Rightarrow> span_context option" where
  "get_context Span = None"
| "get_context (DefaultSpan c) = Some c"

fun is_recording_events :: "span \<Rightarrow> bool option" where
  "is_recording_events Span = None"
| "is_recording_events (DefaultSpan c) = Some False"

definition INVALID_SPAN_CONTEXT :: span_context where
  "INVALID_SPAN_CONTEXT =
     SpanContext INVALID_TRACE_ID INVALID_SPAN_ID (Some DEFAULT_TRACE_OPTIONS) (Some DEFAULT_TRACE_STATE)"

definition INVALID_SPAN :: span where
  "INVALID_SPAN = DefaultSpan INVALID_SPAN_CONTEXT"

text \<open>The API class \<open>Tracer\<close> has no fields; \<open>get_current_span\<close> ignores \<open>self\<close>.\<close>

datatype tracer = Tracer

definition get_current_span :: "tracer \<Rightarrow> span" where
  "get_current_span self = INVALID_SPAN"

section \<open>opentelemetry.trace.sampling\<close>

subsection \<open>Exceptions\<close>

datatype py_error = RuntimeError string | ValueError | OverflowError | NameError | LoaderError

subsection \<open>Floats\<close>

text \<open>
  A Python \<open>float\<close> is an IEEE 754 double. \<open>Finite m e\<close> is the finite double of value
  \<open>m * 2 ^ e\<close> (for a double, \<open>\<bar>m\<bar> < 2 ^ 53\<close> and \<open>- 1074 \<le> e \<le> 971\<close>),
  \<open>Infinity neg\<close> an infinity with its sign, \<open>NaN\<close> not-a-number.
\<close>

datatype pyfloat = Finite int int | Infinity bool | NaN

text \<open>\<open>exceeds_double m e\<close>: the magnitude of \<open>m * 2 ^ e\<close> is at least \<open>2 ^ 1024\<close>, beyond
  every finite double.\<close>

definition exceeds_double :: "int \<Rightarrow> int \<Rightarrow> bool" where
  "exceeds_double m e =
     (if 0 \<le> e then 2 ^ 1024 \<le> \<bar>m\<bar> * 2 ^ nat e else 2 ^ 1024 * 2 ^ nat (- e) \<le> \<bar>m\<bar>)"

text \<open>
  The product of a float and the integer \<open>2 ^ k\<close>. The integer converts to the float
  \<open>2.0 ^ k\<close> exactly; scaling a double by a power of two changes its exponent only, so the
  product is exact unless it overflows to an infinity.
\<close>

fun float_mul_pow2 :: "pyfloat \<Rightarrow> nat \<Rightarrow> pyfloat" where
  "float_mul_pow2 (Finite m e) k =
     (if exceeds_double m (e + int k) then Infinity (m < 0) else Finite m (e + int k))"
| "float_mul_pow2 (Infinity neg) k = Infinity neg"
| "float_mul_pow2 NaN k = NaN"

text \<open>The integer nearest to \<open>m * 2 ^ e\<close>, a tie going to the even neighbour.\<close>

definition round_half_even :: "int \<Rightarrow> int \<Rightarrow> int" where
  "round_half_even m e =
     (if 0 \<le> e then m * 2 ^ nat e
      else let d = 2 ^ nat (- e); q = m div d; r = m mod d
           in if 2 * r < d then q
              else if d < 2 * r then q + 1
              else if even q then q else q + 1)"

text \<open>The builtin \<open>round\<close> with one argument, on a float: \<open>ValueError\<close> for a NaN,
  \<open>OverflowError\<close> for an infinity, else the nearest integer with ties to even.\<close>

fun py_round :: "pyfloat \<Rightarrow> py_error + int" where
  "py_round (Finite m e) = Inr (round_half_even m e)"
| "py_round (Infinity neg) = Inl OverflowError"
| "py_round NaN = Inl ValueError"

subsection \<open>Decisions, held by reference\<close>

text \<open>
  Modelled from the spec: the attribute value type \<open>AttributeValue\<close> of
  \<open>opentelemetry.util.types\<close>, which is not among the sources: "string, boolean, numeric,
  or homogeneous array thereof".
\<close>

datatype attribute_value =
  StrValue string | BoolValue bool | IntValue int | FloatValue pyfloat
  | ArrayValue "attribute_value list"

text \<open>
  A \<open>Decision\<close> is a mutable object that samplers and their callers share by reference.
  The heap is the list of the decisions allocated so far, and the address of a decision
  is its position in the list; the dictionary of attributes belongs to its decision
  (\<open>Decision.__init__\<close> makes a new one, empty or a copy of its argument).
\<close>

record decision =
  sampled :: bool
  attributes :: "string \<rightharpoonup> attribute_value"

type_synonym addr = nat
type_synonym heap = "decision list"

definition heap_get :: "heap \<Rightarrow> addr \<Rightarrow> decision option" where
  "heap_get h a = (if a < length h then Some (h ! a) else None)"

text \<open>\<open>Decision(sampled, attributes)\<close>: a new object, at a new address.\<close>

definition Decision :: "bool \<Rightarrow> (string \<rightharpoonup> attribute_value) option \<Rightarrow> heap \<Rightarrow> addr \<times> heap" where
  "Decision smp attrs h =
     (length h,
      h @ [\<lparr> sampled = smp,
              attributes = (case attrs of None \<Rightarrow> Map.empty | Some m \<Rightarrow> m) \<rparr>])"



text \<open>The \<open>sampled\<close> field and the attributes of the decision a call returned.\<close>

definition result_sampled :: "addr \<times> heap \<Rightarrow> bool option" where
  "result_sampled r = map_option sampled (heap_get (snd r) (fst r))"


subsection \<open>Samplers\<close>

record link =
  link_context :: span_context
  link_attributes :: "(string \<rightharpoonup> attribute_value) option"

text \<open>\<open>ProbabilitySampler\<close>: the fields \<open>_rate\<close> and \<open>_bound\<close>, read by the properties
  \<open>rate\<close> and \<open>bound\<close>.\<close>

record probability_sampler =
  rate :: pyfloat
  bound :: int

definition CHECK_BYTES :: int where
  "CHECK_BYTES = 0xFFFFFFFFFFFFFFFF"

text \<open>\<open>round(rate * (cls.CHECK_BYTES + 1))\<close>, where \<open>CHECK_BYTES + 1\<close> is \<open>2 ^ 64\<close>.\<close>

definition get_bound_for_rate :: "pyfloat \<Rightarrow> py_error + int" where
  "get_bound_for_rate r = py_round (float_mul_pow2 r 64)"

text \<open>\<open>ProbabilitySampler.__init__\<close>: an exception of \<open>get_bound_for_rate\<close> leaves the
  constructor, and no sampler is made.\<close>

definition new_ProbabilitySampler :: "pyfloat \<Rightarrow> py_error + probability_sampler" where
  "new_ProbabilitySampler r =
     (case get_bound_for_rate r of
        Inl err \<Rightarrow> Inl err
      | Inr b \<Rightarrow> Inr \<lparr> rate = r, bound = b \<rparr>)"

text \<open>The setter of \<open>rate\<close>: it stores the new rate first, then the bound; an exception
  of \<open>get_bound_for_rate\<close> leaves the setter after the first assignment.\<close>

definition set_rate :: "probability_sampler \<Rightarrow> pyfloat \<Rightarrow> py_error option \<times> probability_sampler" where
  "set_rate self new_rate =
     (let self1 = self\<lparr>rate := new_rate\<rparr>
      in case get_bound_for_rate (rate self1) of
           Inl err \<Rightarrow> (Some err, self1)
         | Inr b \<Rightarrow> (None, self1\<lparr>bound := b\<rparr>))"

text \<open>A \<open>StaticSampler\<close> holds a reference to the decision it was given.\<close>

datatype sampler = StaticSampler addr | ProbabilitySampler probability_sampler

fun should_sample ::
  "sampler \<Rightarrow> span_context option \<Rightarrow> int \<Rightarrow> int \<Rightarrow> string \<Rightarrow> link list \<Rightarrow> heap \<Rightarrow> addr \<times> heap" where
  "should_sample (StaticSampler d) parent_context tid sid name links h = (d, h)"
| "should_sample (ProbabilitySampler self) parent_context tid sid name links h =
     (case parent_context of
        Some p \<Rightarrow> Decision (TraceOptions_sampled (trace_options p)) None h
      | None \<Rightarrow> Decision (tid AND CHECK_BYTES < bound self) None h)"

text \<open>
  The samplers of the module. \<open>ALWAYS_OFF = StaticSampler(Decision(False))\<close> and
  \<open>ALWAYS_ON = StaticSampler(Decision(True))\<close> allocate their decisions when the module
  is loaded, in this order, on the empty heap; \<open>module_heap\<close> is the heap after that.
\<close>

definition ALWAYS_OFF :: sampler where
  "ALWAYS_OFF = StaticSampler (fst (Decision False None []))"


definition module_heap :: heap where
  "module_heap = snd (Decision True None (snd (Decision False None [])))"

definition DEFAULT_OFF :: "py_error + probability_sampler" where
  "DEFAULT_OFF = new_ProbabilitySampler (Finite 0 0)"

definition DEFAULT_ON :: "py_error + probability_sampler" where
  "DEFAULT_ON = new_ProbabilitySampler (Finite 1 0)"

section \<open>The global tracer\<close>

text \<open>
  The module's globals \<open>_TRACER\<close> and \<open>_TRACER_FACTORY\<close>. A global name can be unbound:
  \<open>tracer()\<close> deletes \<open>_TRACER_FACTORY\<close> once a tracer is loaded. The types of tracers
  and of factories are parameters.
\<close>

datatype 'a global_name = Unbound | Bound 'a

record ('t, 'f) trace_globals =
  TRACER :: "'t option"
  TRACER_FACTORY :: "'f option global_name"

definition initial_globals :: "('t, 'f) trace_globals" where
  "initial_globals = \<lparr> TRACER = None, TRACER_FACTORY = Bound None \<rparr>"

text \<open>
  The truth value of \<open>_TRACER\<close> in \<open>if _TRACER:\<close>. \<open>None\<close> is false. The truth value
  of an object is what \<open>__bool__\<close> of its class returns or, in a class without it, whether
  \<open>__len__\<close> returns a number other than 0; an object of a class with neither, as
  \<open>Tracer\<close> itself, is true. The cached tracer is the object the loader returned, which
  can be of any subclass of \<open>Tracer\<close>, so the truth value of a tracer is a parameter,
  \<open>tracer_bool\<close>.
\<close>

fun truth_value :: "('t \<Rightarrow> bool) \<Rightarrow> 't option \<Rightarrow> bool" where
  "truth_value tracer_bool None = False"
| "truth_value tracer_bool (Some t) = tracer_bool t"

text \<open>
  \<open>tracer()\<close>. The loader \<open>opentelemetry.util.loader._load_impl\<close> is not among the
  sources: \<open>load_impl\<close> is a parameter, from the optional factory to a tracer or an
  exception. Reading a deleted global raises \<open>NameError\<close>.
\<close>

definition tracer ::
  "('f option \<Rightarrow> py_error + 't) \<Rightarrow> ('t, 'f) trace_globals
     \<Rightarrow> (py_error + 't) \<times> ('t, 'f) trace_globals" where
  "tracer load_impl g =
     (case TRACER g of
        None \<Rightarrow>
          (case TRACER_FACTORY g of
             Unbound \<Rightarrow> (Inl NameError, g)
           | Bound factory \<Rightarrow>
               (case load_impl factory of
                  Inl err \<Rightarrow> (Inl err, g)
                | Inr t \<Rightarrow> (Inr t, g\<lparr>TRACER := Some t, TRACER_FACTORY := Unbound\<rparr>)))
      | Some t \<Rightarrow> (Inr t, g))"

text \<open>\<open>set_preferred_tracer_implementation(factory)\<close>: \<open>if _TRACER: raise RuntimeError(...)\<close>,
  then \<open>_TRACER_FACTORY = factory\<close>.\<close>

definition set_preferred_tracer_implementation ::
  "('t \<Rightarrow> bool) \<Rightarrow> 'f \<Rightarrow> ('t, 'f) trace_globals
     \<Rightarrow> (py_error + unit) \<times> ('t, 'f) trace_globals" where
  "set_preferred_tracer_implementation tracer_bool factory g =
     (if truth_value tracer_bool (TRACER g)
      then (Inl (RuntimeError ''Tracer already loaded.''), g)
      else (Inr (), g\<lparr>TRACER_FACTORY := Bound (Some factory)\<rparr>))"

section \<open>Validity of span contexts\<close>

text \<open>
  C1. A span context built from trace id \<open>t\<close> and span id \<open>s\<close> (with any options and
  state, given or defaulted) is valid exactly when \<open>t\<close> is not \<open>INVALID_TRACE_ID\<close> and
  \<open>s\<close> is not \<open>INVALID_SPAN_ID\<close>, and both reserved values are 0.
\<close>

theorem is_valid_iff_nonzero_ids:
  "is_valid (SpanContext t s opts st) = (t \<noteq> 0 \<and> s \<noteq> 0)
   \<and> INVALID_TRACE_ID = 0 \<and> INVALID_SPAN_ID = 0"
  by (simp add: is_valid_def SpanContext_def INVALID_TRACE_ID_def INVALID_SPAN_ID_def)

section \<open>The current span of the API tracer\<close>

text \<open>
  C8. \<open>Tracer.get_current_span\<close> always returns a span: the placeholder
  \<open>INVALID_SPAN\<close>, a \<open>DefaultSpan\<close> whose context exists, is not valid, and whose
  \<open>is_recording_events\<close> is \<open>False\<close>.
\<close>

theorem get_current_span_placeholder:
  "get_current_span self = DefaultSpan INVALID_SPAN_CONTEXT
   \<and> get_context (get_current_span self) = Some INVALID_SPAN_CONTEXT
   \<and> is_valid INVALID_SPAN_CONTEXT = False
   \<and> is_recording_events (get_current_span self) = Some False"
  by (simp add: get_current_span_def INVALID_SPAN_def INVALID_SPAN_CONTEXT_def is_valid_def
      SpanContext_def INVALID_TRACE_ID_def)

section \<open>Fixed-width rendering of identifiers\<close>

lemma hex_digit_is_hex_char: "d < 16 \<Longrightarrow> is_hex_char (hex_digit d)"
  unfolding is_hex_char_def hex_digit_def by (rule nth_mem) simp

lemma hex_digits_table:
  "list_all (\<lambda>d. hex_char_value (hex_digit d) = d) [0..<16]"
  by code_simp

lemma hex_char_value_hex_digit: "d < 16 \<Longrightarrow> hex_char_value (hex_digit d) = d"
  using hex_digits_table by (simp add: list_all_iff)

lemma to_hex_nonempty: "to_hex n \<noteq> []"
  by (subst to_hex.simps) simp

lemma to_hex_length: "n < 16 ^ Suc k \<Longrightarrow> length (to_hex n) \<le> Suc k"
proof (induction k arbitrary: n)
  case 0
  then show ?case by (subst to_hex.simps) simp
next
  case (Suc k)
  show ?case
  proof (cases "n < 16")
    case True
    then show ?thesis by (subst to_hex.simps) simp
  next
    case False
    from Suc.prems have "n div 16 < 16 ^ Suc k"
      by (simp add: less_mult_imp_div_less mult.commute)
    then have "length (to_hex (n div 16)) \<le> Suc k" by (rule Suc.IH)
    with False show ?thesis by (subst to_hex.simps) simp
  qed
qed

lemma to_hex_chars: "list_all is_hex_char (to_hex n)"
proof (induction n rule: to_hex.induct)
  case (1 n)
  show ?case
  proof (cases "n < 16")
    case True
    then show ?thesis by (subst to_hex.simps) (simp add: hex_digit_is_hex_char)
  next
    case False
    with 1 have "list_all is_hex_char (to_hex (n div 16))" by simp
    with False show ?thesis
      by (subst to_hex.simps) (simp add: hex_digit_is_hex_char)
  qed
qed

lemma hex_value_snoc: "hex_value (ds @ [c]) = 16 * hex_value ds + hex_char_value c"
  by (simp add: hex_value_def)

lemma hex_value_to_hex: "hex_value (to_hex n) = n"
proof (induction n rule: to_hex.induct)
  case (1 n)
  show ?case
  proof (cases "n < 16")
    case True
    then show ?thesis
      by (subst to_hex.simps) (simp add: hex_value_def hex_char_value_hex_digit)
  next
    case False
    with 1 have "hex_value (to_hex (n div 16)) = n div 16" by simp
    with False show ?thesis
      by (subst to_hex.simps) (simp add: hex_value_snoc hex_char_value_hex_digit)
  qed
qed

lemma foldl_zeros:
  "foldl (\<lambda>acc c. 16 * acc + hex_char_value c) 0 (replicate k CHR ''0'') = 0"
  by (induction k) (simp_all add: hex_char_value_def)

lemma hex_value_zero_pad: "hex_value (zero_pad w ds) = hex_value ds"
  by (simp add: hex_value_def zero_pad_def foldl_zeros)

lemma is_hex_char_zero: "is_hex_char CHR ''0''"
  by (simp add: is_hex_char_def)

lemma zero_pad_chars: "list_all is_hex_char ds \<Longrightarrow> list_all is_hex_char (zero_pad w ds)"
  by (simp add: zero_pad_def list_all_length nth_append is_hex_char_zero)

lemma zero_pad_length: "length ds \<le> w \<Longrightarrow> length (zero_pad w ds) = w"
  by (simp add: zero_pad_def)

lemma format_0x_nonneg:
  assumes "0 \<le> n" "n < 16 ^ Suc k"
  shows "length (format_0x (Suc k) n) = Suc k"
    and "list_all is_hex_char (format_0x (Suc k) n)"
    and "int (hex_value (format_0x (Suc k) n)) = n"
proof -
  from assms have "nat n < 16 ^ Suc k"
    by (metis nat_less_iff of_nat_numeral of_nat_power)
  then have "length (to_hex (nat n)) \<le> Suc k" by (rule to_hex_length)
  with assms(1) show "length (format_0x (Suc k) n) = Suc k"
    by (simp add: format_0x_def zero_pad_length)
  from assms(1) show "list_all is_hex_char (format_0x (Suc k) n)"
    by (simp add: format_0x_def zero_pad_chars to_hex_chars)
  from assms(1) show "int (hex_value (format_0x (Suc k) n)) = n"
    by (simp add: format_0x_def hex_value_zero_pad hex_value_to_hex)
qed

text \<open>
  C9. For a trace id in \<open>[0, 2 ^ 128)\<close> and a span id in \<open>[0, 2 ^ 64)\<close>,
  \<open>format_trace_id\<close> is \<open>0x\<close> followed by exactly 32 characters and \<open>format_span_id\<close>
  is \<open>0x\<close> followed by exactly 16, all of them lower-case hexadecimal digits that read
  back as the identifier (so the padding is zeros); and the representation of a
  \<open>SpanContext\<close> shows the two identifiers in exactly this form.
\<close>

theorem format_ids_fixed_width:
  assumes "0 \<le> t" "t < 2 ^ 128" "0 \<le> s" "s < 2 ^ 64"
  shows "take 2 (format_trace_id t) = ''0x''
       \<and> length (drop 2 (format_trace_id t)) = 32
       \<and> list_all is_hex_char (drop 2 (format_trace_id t))
       \<and> int (hex_value (drop 2 (format_trace_id t))) = t
       \<and> take 2 (format_span_id s) = ''0x''
       \<and> length (drop 2 (format_span_id s)) = 16
       \<and> list_all is_hex_char (drop 2 (format_span_id s))
       \<and> int (hex_value (drop 2 (format_span_id s))) = s
       \<and> SpanContext_repr nm rs (SpanContext t s opts st) =
           nm @ ''(trace_id=0x'' @ drop 2 (format_trace_id t)
              @ '', span_id=0x'' @ drop 2 (format_span_id s)
              @ '', trace_state='' @ rs (trace_state (SpanContext t s opts st)) @ '')''"
proof -
  have t: "t < 16 ^ Suc 31" using assms(2) by simp
  have s: "s < 16 ^ Suc 15" using assms(4) by simp
  have dt: "drop 2 (format_trace_id t) = format_0x (Suc 31) t"
    by (simp add: format_trace_id_def)
  have ds: "drop 2 (format_span_id s) = format_0x (Suc 15) s"
    by (simp add: format_span_id_def)
  note T = format_0x_nonneg [OF assms(1) t]
  note S = format_0x_nonneg [OF assms(3) s]
  have r: "SpanContext_repr nm rs (SpanContext t s opts st) =
           nm @ ''(trace_id=0x'' @ drop 2 (format_trace_id t)
              @ '', span_id=0x'' @ drop 2 (format_span_id s)
              @ '', trace_state='' @ rs (trace_state (SpanContext t s opts st)) @ '')''"
    by (simp add: SpanContext_repr_def SpanContext_def format_trace_id_def format_span_id_def)
  show ?thesis
    unfolding dt ds using T S r
    by (simp add: format_trace_id_def format_span_id_def dt ds)
qed

theorem format_ids_fixed_width_witness:
  "(0::int) \<le> 255 \<and> (255::int) < 2 ^ 128 \<and> (0::int) \<le> 171 \<and> (171::int) < 2 ^ 64
   \<and> length (drop 2 (format_trace_id 255)) = 32
   \<and> int (hex_value (drop 2 (format_trace_id 255))) = 255
   \<and> length (drop 2 (format_span_id 171)) = 16
   \<and> int (hex_value (drop 2 (format_span_id 171))) = 171
   \<and> format_trace_id 255 = ''0x000000000000000000000000000000ff''
   \<and> format_span_id 171 = ''0x00000000000000ab''"
proof -
  have h: "(0::int) \<le> 255" "(255::int) < 2 ^ 128" "(0::int) \<le> 171" "(171::int) < 2 ^ 64"
    by simp_all
  have t: "format_trace_id 255 = ''0x000000000000000000000000000000ff''"
    by code_simp
  have s: "format_span_id 171 = ''0x00000000000000ab''"
    by code_simp
  note c = format_ids_fixed_width [OF h, of "''SpanContext''" "\<lambda>st. ''{}''" None None]
  from c have c1: "length (drop 2 (format_trace_id 255)) = 32" by (elim conjE)
  from c have c2: "int (hex_value (drop 2 (format_trace_id 255))) = 255" by (elim conjE)
  from c have c3: "length (drop 2 (format_span_id 171)) = 16" by (elim conjE)
  from c have c4: "int (hex_value (drop 2 (format_span_id 171))) = 171" by (elim conjE)
  show ?thesis by (intro conjI; fact)
qed

section \<open>Decisions of the probability sampler\<close>

lemma and_check_bytes: "tid AND CHECK_BYTES = tid mod 2 ^ 64"
proof -
  have "CHECK_BYTES = mask 64" by (simp add: CHECK_BYTES_def mask_eq_exp_minus_1)
  then have "tid AND CHECK_BYTES = take_bit 64 tid" by (simp only: take_bit_eq_mask)
  then show ?thesis by (simp only: take_bit_eq_mod)
qed

lemma result_sampled_Decision: "result_sampled (Decision b attrs h) = Some b"
  by (simp add: result_sampled_def Decision_def heap_get_def)


lemma get_bound_zero: "get_bound_for_rate (Finite 0 0) = Inr 0"
  by (simp add: get_bound_for_rate_def exceeds_double_def round_half_even_def)

lemma get_bound_one: "get_bound_for_rate (Finite 1 0) = Inr (2 ^ 64)"
  by (simp add: get_bound_for_rate_def exceeds_double_def round_half_even_def)

text \<open>
  C2. With no parent context, the decision of a \<open>ProbabilitySampler\<close> is sampled
  exactly when \<open>trace_id & 0xFFFFFFFFFFFFFFFF\<close> is below the sampler's bound; the masked
  value is the trace id modulo \<open>2 ^ 64\<close>, so only its low 64 bits take part.
\<close>

theorem root_decision_low_64_bits:
  "result_sampled (should_sample (ProbabilitySampler self) None tid sid name links h)
     = Some (tid AND 0xFFFFFFFFFFFFFFFF < bound self)
   \<and> result_sampled (should_sample (ProbabilitySampler self) None tid sid name links h)
     = Some (tid mod 2 ^ 64 < bound self)"
  using and_check_bytes [of tid]
  by (simp add: result_sampled_Decision CHECK_BYTES_def)

text \<open>
  C3. With a parent context, the decision of a \<open>ProbabilitySampler\<close> is the parent's
  \<open>sampled\<close> flag (bit 0 of its trace options), whatever the sampler's rate and bound,
  the trace id, the span id, the name and the links.
\<close>

theorem child_decision_follows_parent:
  "result_sampled (should_sample (ProbabilitySampler self) (Some p) tid sid name links h)
     = Some (TraceOptions_sampled (trace_options p))
   \<and> TraceOptions_sampled (trace_options p) = odd (trace_options p)"
  by (simp add: result_sampled_Decision TraceOptions_sampled_def TraceOptions_SAMPLED_def
      and_one_eq mod_2_eq_odd)

lemma new_ProbabilitySampler_Inr:
  "new_ProbabilitySampler r = Inr s \<Longrightarrow> get_bound_for_rate r = Inr (bound s) \<and> rate s = r"
  by (auto simp: new_ProbabilitySampler_def split: sum.splits)

lemma set_rate_None:
  "set_rate s0 r = (None, s) \<Longrightarrow> get_bound_for_rate r = Inr (bound s) \<and> rate s = r"
  by (auto simp: set_rate_def Let_def split: sum.splits)

lemma root_or_child_decision:
  "result_sampled (should_sample (ProbabilitySampler self) parent tid sid name links h)
     = Some (case parent of
               None \<Rightarrow> tid mod 2 ^ 64 < bound self
             | Some p \<Rightarrow> TraceOptions_sampled (trace_options p))"
  using and_check_bytes [of tid]
  by (cases parent) (simp_all add: result_sampled_Decision)

text \<open>
  C4. \<open>ProbabilitySampler.should_sample\<close> is deterministic in the rate and its
  arguments. Take any two samplers that got the rate \<open>r\<close>, each either as
  \<open>ProbabilitySampler(r)\<close> or by a completed assignment of \<open>r\<close> to the \<open>rate\<close> of some
  sampler. They have the same bound, the bound of \<open>r\<close>, and calls of \<open>should_sample\<close>
  on them with the same parent context, trace id, span id, name and links give
  decisions with the same \<open>sampled\<close> value, at any two times (whatever objects exist at
  each call): with no parent the value is "the trace id modulo \<open>2 ^ 64\<close> is below the
  bound of \<open>r\<close>", with a parent it is the parent's flag.
\<close>

theorem should_sample_deterministic:
  assumes "new_ProbabilitySampler r = Inr s1 \<or> set_rate s0 r = (None, s1)"
      and "new_ProbabilitySampler r = Inr s2 \<or> set_rate s0' r = (None, s2)"
  shows "result_sampled (should_sample (ProbabilitySampler s1) parent tid sid name links h1)
           = result_sampled (should_sample (ProbabilitySampler s2) parent tid sid name links h2)
       \<and> get_bound_for_rate r = Inr (bound s1)
       \<and> bound s2 = bound s1
       \<and> result_sampled (should_sample (ProbabilitySampler s1) parent tid sid name links h1)
           = Some (case parent of
                     None \<Rightarrow> tid mod 2 ^ 64 < bound s1
                   | Some p \<Rightarrow> TraceOptions_sampled (trace_options p))"
proof -
  from assms(1) have b1: "get_bound_for_rate r = Inr (bound s1)"
    using new_ProbabilitySampler_Inr set_rate_None by blast
  from assms(2) have b2: "get_bound_for_rate r = Inr (bound s2)"
    using new_ProbabilitySampler_Inr set_rate_None by blast
  from b1 b2 have eq: "bound s2 = bound s1" by simp
  show ?thesis
    using b1 eq
    by (cases parent) (simp_all add: root_or_child_decision del: should_sample.simps)
qed

theorem should_sample_deterministic_witness:
  "new_ProbabilitySampler (Finite 1 (- 1)) = Inr \<lparr> rate = Finite 1 (- 1), bound = 2 ^ 63 \<rparr>
   \<and> set_rate \<lparr> rate = Finite 1 0, bound = 2 ^ 64 \<rparr> (Finite 1 (- 1))
        = (None, \<lparr> rate = Finite 1 (- 1), bound = 2 ^ 63 \<rparr>)
   \<and> result_sampled (should_sample
          (ProbabilitySampler \<lparr> rate = Finite 1 (- 1), bound = 2 ^ 63 \<rparr>) None 5 9 ''span'' [] [])
        = result_sampled (should_sample
          (ProbabilitySampler \<lparr> rate = Finite 1 (- 1), bound = 2 ^ 63 \<rparr>) None 5 9 ''span'' []
          module_heap)
   \<and> get_bound_for_rate (Finite 1 (- 1)) = Inr (2 ^ 63)
   \<and> result_sampled (should_sample
          (ProbabilitySampler \<lparr> rate = Finite 1 (- 1), bound = 2 ^ 63 \<rparr>) None 5 9 ''span'' [] [])
        = Some True"
proof -
  have c: "new_ProbabilitySampler (Finite 1 (- 1))
             = Inr \<lparr> rate = Finite 1 (- 1), bound = 2 ^ 63 \<rparr>"
    by (simp add: new_ProbabilitySampler_def get_bound_for_rate_def exceeds_double_def
        round_half_even_def)
  have a: "set_rate \<lparr> rate = Finite 1 0, bound = 2 ^ 64 \<rparr> (Finite 1 (- 1))
             = (None, \<lparr> rate = Finite 1 (- 1), bound = 2 ^ 63 \<rparr>)"
    by (simp add: set_rate_def get_bound_for_rate_def exceeds_double_def round_half_even_def)
  note d = should_sample_deterministic [OF disjI1 [OF c] disjI2 [OF a],
      of None 5 9 "''span''" "[]" "[]" module_heap]
  from d have d1: "result_sampled (should_sample
          (ProbabilitySampler \<lparr> rate = Finite 1 (- 1), bound = 2 ^ 63 \<rparr>) None 5 9 ''span'' [] [])
        = result_sampled (should_sample
          (ProbabilitySampler \<lparr> rate = Finite 1 (- 1), bound = 2 ^ 63 \<rparr>) None 5 9 ''span'' []
          module_heap)"
    by (elim conjE)
  from d [THEN conjunct2, THEN conjunct1]
  have d2: "get_bound_for_rate (Finite 1 (- 1)) = Inr (2 ^ 63)"
    by simp
  from d [THEN conjunct2, THEN conjunct2, THEN conjunct2]
  have d3: "result_sampled (should_sample
          (ProbabilitySampler \<lparr> rate = Finite 1 (- 1), bound = 2 ^ 63 \<rparr>) None 5 9 ''span'' [] [])
        = Some True"
    by (simp del: should_sample.simps)
  show ?thesis by (intro conjI; fact)
qed

text \<open>
  C5. \<open>ProbabilitySampler(0.0)\<close> has bound 0 and, with no parent, samples no trace id;
  \<open>ProbabilitySampler(1.0)\<close> has bound \<open>2 ^ 64\<close> and, with no parent, samples every
  trace id. These are the module's \<open>DEFAULT_OFF\<close> and \<open>DEFAULT_ON\<close>.
\<close>

theorem default_samplers_root_decision:
  "DEFAULT_OFF = Inr \<lparr> rate = Finite 0 0, bound = 0 \<rparr>
   \<and> DEFAULT_ON = Inr \<lparr> rate = Finite 1 0, bound = 2 ^ 64 \<rparr>
   \<and> result_sampled (should_sample (ProbabilitySampler \<lparr> rate = Finite 0 0, bound = 0 \<rparr>)
         None tid sid name links h) = Some False
   \<and> result_sampled (should_sample (ProbabilitySampler \<lparr> rate = Finite 1 0, bound = 2 ^ 64 \<rparr>)
         None tid sid name links h) = Some True"
proof -
  have lo: "\<not> tid AND CHECK_BYTES < 0" by (simp add: and_check_bytes)
  have hi: "tid AND CHECK_BYTES < 2 ^ 64" by (simp add: and_check_bytes)
  show ?thesis using lo hi
    by (simp add: DEFAULT_OFF_def DEFAULT_ON_def new_ProbabilitySampler_def get_bound_zero
        get_bound_one result_sampled_Decision)
qed

section \<open>The bound of a probability sampler\<close>

text \<open>\<open>round_half_even m e\<close> is \<open>m * 2 ^ e\<close> when that is an integer, and otherwise an
  integer at distance at most one half from it, the even one when two are.\<close>

lemma round_half_even_exact: "0 \<le> e \<Longrightarrow> round_half_even m e = m * 2 ^ nat e"
  by (simp add: round_half_even_def)

lemma round_half_even_nearest:
  assumes "e < 0"
  shows "\<bar>2 * (round_half_even m e * 2 ^ nat (- e) - m)\<bar> \<le> 2 ^ nat (- e)"
proof -
  define d :: int where "d = 2 ^ nat (- e)"
  define q where "q = m div d"
  define r where "r = m mod d"
  have dpos: "0 < d" by (simp add: d_def)
  have m: "m = q * d + r" by (simp add: q_def r_def)
  have r: "0 \<le> r" "r < d" using dpos by (simp_all add: r_def)
  have v: "round_half_even m e =
      (if 2 * r < d then q else if d < 2 * r then q + 1 else if even q then q else q + 1)"
    using assms by (simp add: round_half_even_def Let_def d_def q_def r_def)
  have "\<bar>2 * (round_half_even m e * d - m)\<bar> \<le> d"
    unfolding v using r m by (auto simp: algebra_simps)
  then show ?thesis by (simp only: d_def)
qed

lemma round_half_even_tie:
  assumes "e < 0" "2 * (m mod 2 ^ nat (- e)) = 2 ^ nat (- e)"
  shows "even (round_half_even m e)"
  using assms by (simp add: round_half_even_def Let_def)

lemma get_bound_finite:
  "\<not> exceeds_double m (e + 64) \<Longrightarrow>
     get_bound_for_rate (Finite m e) = Inr (round_half_even m (e + 64))"
  by (simp add: get_bound_for_rate_def)

lemma double_below_2_960_has_bound:
  assumes "\<bar>m\<bar> < 2 ^ 53" "e \<le> 907"
  shows "\<not> exceeds_double m (e + 64)"
proof (cases "0 \<le> e + 64")
  case True
  have "nat (e + 64) \<le> 971" using assms(2) by simp
  then have "(2::int) ^ nat (e + 64) \<le> 2 ^ 971" by (rule power_increasing) simp
  then have "\<bar>m\<bar> * 2 ^ nat (e + 64) \<le> \<bar>m\<bar> * 2 ^ 971"
    by (rule mult_left_mono) simp
  also have "\<dots> < 2 ^ 53 * 2 ^ 971" using assms(1) by simp
  also have "\<dots> = (2::int) ^ 1024" by (simp flip: power_add)
  finally have lt: "\<bar>m\<bar> * 2 ^ nat (e + 64) < 2 ^ 1024" .
  have "exceeds_double m (e + 64) = (2 ^ 1024 \<le> \<bar>m\<bar> * 2 ^ nat (e + 64))"
    unfolding exceeds_double_def using True by (simp only: if_True)
  with lt show ?thesis by (simp only: not_le)
next
  case False
  have "(2::int) ^ 53 \<le> 2 ^ 1024" by (rule power_increasing) simp_all
  with assms(1) have "\<bar>m\<bar> < 2 ^ 1024" by (rule less_le_trans)
  also have "(2::int) ^ 1024 = 2 ^ 1024 * 1" by (simp only: mult_1_right)
  also have "\<dots> \<le> 2 ^ 1024 * 2 ^ nat (- (e + 64))"
    by (rule mult_left_mono) simp_all
  finally have lt: "\<bar>m\<bar> < 2 ^ 1024 * 2 ^ nat (- (e + 64))" .
  have "exceeds_double m (e + 64) = (2 ^ 1024 * 2 ^ nat (- (e + 64)) \<le> \<bar>m\<bar>)"
    unfolding exceeds_double_def using False by (simp only: if_False)
  with lt show ?thesis by (simp only: not_le)
qed

text \<open>
  C6, as the code has it. For every finite rate whose product with \<open>2 ^ 64\<close> does not
  overflow (every double of magnitude below \<open>2 ^ 960\<close>, so every rate in \<open>[0, 1]\<close>),
  \<open>round(rate * 2 ^ 64)\<close> exists, construction gives a sampler with that rate and that
  bound, and an assignment to \<open>rate\<close> of any sampler leaves it with the new rate and
  the bound of the new rate, at once.
\<close>

theorem bound_recomputed_for_finite_rate:
  assumes "\<not> exceeds_double m (e + 64)"
  shows "get_bound_for_rate (Finite m e) = Inr (round_half_even m (e + 64))
       \<and> new_ProbabilitySampler (Finite m e)
           = Inr \<lparr> rate = Finite m e, bound = round_half_even m (e + 64) \<rparr>
       \<and> set_rate self (Finite m e)
           = (None, \<lparr> rate = Finite m e, bound = round_half_even m (e + 64) \<rparr>)"
  using assms
  by (simp add: get_bound_finite new_ProbabilitySampler_def set_rate_def)

theorem bound_recomputed_for_finite_rate_witness:
  "\<not> exceeds_double 1 (- 1 + 64)
   \<and> get_bound_for_rate (Finite 1 (- 1)) = Inr (2 ^ 63)
   \<and> new_ProbabilitySampler (Finite 1 (- 1)) = Inr \<lparr> rate = Finite 1 (- 1), bound = 2 ^ 63 \<rparr>
   \<and> set_rate \<lparr> rate = Finite 0 0, bound = 0 \<rparr> (Finite 1 (- 1))
        = (None, \<lparr> rate = Finite 1 (- 1), bound = 2 ^ 63 \<rparr>)"
proof -
  have h: "\<not> exceeds_double 1 (- 1 + 64)" by (simp add: exceeds_double_def)
  have r: "round_half_even 1 (- 1 + 64) = 2 ^ 63" by (simp add: round_half_even_def)
  show ?thesis
    using h bound_recomputed_for_finite_rate [OF h, of "\<lparr> rate = Finite 0 0, bound = 0 \<rparr>"]
    unfolding r by simp
qed

text \<open>
  C6 as stated fails for a rate that \<open>round\<close> rejects: assigning NaN to the rate of
  \<open>ProbabilitySampler(0.5)\<close> raises \<open>ValueError\<close> after the rate is stored, and the
  sampler keeps the bound \<open>2 ^ 63\<close> of the old rate; constructing with NaN raises.
\<close>

theorem nan_rate_assignment_keeps_old_bound:
  "new_ProbabilitySampler (Finite 1 (- 1)) = Inr \<lparr> rate = Finite 1 (- 1), bound = 2 ^ 63 \<rparr>
   \<and> set_rate \<lparr> rate = Finite 1 (- 1), bound = 2 ^ 63 \<rparr> NaN
        = (Some ValueError, \<lparr> rate = NaN, bound = 2 ^ 63 \<rparr>)
   \<and> get_bound_for_rate NaN = Inl ValueError
   \<and> new_ProbabilitySampler NaN = Inl ValueError"
  by (simp add: new_ProbabilitySampler_def set_rate_def get_bound_for_rate_def
      exceeds_double_def round_half_even_def)

section \<open>Decisions and the samplers that return them\<close>





lemma Decision_keeps_heap:
  "a < length h \<Longrightarrow> heap_get (snd (Decision b attrs h)) a = heap_get h a"
  by (simp add: Decision_def heap_get_def nth_append)







section \<open>Selecting the tracer implementation\<close>

text \<open>
  Where the cached tracer is true: once \<open>tracer()\<close> has returned such a tracer, it is
  cached, \<open>set_preferred_tracer_implementation\<close> raises \<open>RuntimeError\<close> and leaves the
  globals (the cached tracer and the factory) as they were, and \<open>tracer()\<close> goes on
  returning the cached tracer. While no tracer is cached, the call succeeds and stores
  the factory.
\<close>

lemma reselect_raises_for_true_tracer:
  assumes "tracer load_impl g = (Inr t, g1)" and "tracer_bool t"
  shows "TRACER g1 = Some t
       \<and> set_preferred_tracer_implementation tracer_bool factory g1
           = (Inl (RuntimeError ''Tracer already loaded.''), g1)
       \<and> tracer load_impl' g1 = (Inr t, g1)"
proof -
  from assms(1) have t: "TRACER g1 = Some t"
    by (auto simp: tracer_def split: option.splits global_name.splits sum.splits)
  with assms(2) show ?thesis
    by (simp add: set_preferred_tracer_implementation_def tracer_def)
qed

lemma select_before_load_succeeds:
  "TRACER g0 = None \<Longrightarrow>
     set_preferred_tracer_implementation tracer_bool factory g0
       = (Inr (), g0\<lparr>TRACER_FACTORY := Bound (Some factory)\<rparr>)"
  by (simp add: set_preferred_tracer_implementation_def)

text \<open>
  C7. The claim is that \<open>set_preferred_tracer_implementation\<close> raises once \<open>tracer()\<close>
  has cached a tracer. The function tests the truth value of the cached tracer, where
  \<open>tracer()\<close> tests \<open>_TRACER is None\<close>. Take tracers of a subclass of \<open>Tracer\<close> with a
  \<open>__len__\<close>, each written as the number its \<open>__len__\<close> returns, and a loader that
  returns the tracer 0. After \<open>tracer()\<close> has cached it and deleted the factory, the
  call of \<open>set_preferred_tracer_implementation\<close> with the factory 7 raises nothing and
  binds \<open>_TRACER_FACTORY\<close> to it; a later \<open>tracer()\<close> still returns the cached tracer.
\<close>

theorem reselect_accepted_for_false_tracer:
  "tracer (\<lambda>f. Inr 0) (initial_globals :: (nat, nat) trace_globals)
     = (Inr 0, \<lparr> TRACER = Some 0, TRACER_FACTORY = Unbound \<rparr>)
   \<and> set_preferred_tracer_implementation (\<lambda>t. 0 < t) (7::nat)
        \<lparr> TRACER = Some (0::nat), TRACER_FACTORY = Unbound \<rparr>
       = (Inr (), \<lparr> TRACER = Some 0, TRACER_FACTORY = Bound (Some 7) \<rparr>)
   \<and> tracer (\<lambda>f. Inr 1) \<lparr> TRACER = Some (0::nat), TRACER_FACTORY = Bound (Some (7::nat)) \<rparr>
       = (Inr 0, \<lparr> TRACER = Some 0, TRACER_FACTORY = Bound (Some 7) \<rparr>)"
  by (simp add: tracer_def initial_globals_def set_preferred_tracer_implementation_def)

end
